theory Spec2Isabelle
  imports Main "HOL-Library.Char_ord" "HOL-Library.List_Lexorder"
begin

section \<open>Task Manager: a shallow embedding of the Python sources\<close>

text \<open>
  The repository holds four iterations of one command-line script
  (\<^verbatim>\<open>task_manager-v1.py\<close>, \<^verbatim>\<open>task_manager-v2.py\<close>, \<^verbatim>\<open>task-manager-v3.py\<close>,
  \<^verbatim>\<open>task_manager-v5.py\<close>). The operations below follow \<^verbatim>\<open>task_manager-v5.py\<close>;
  where an earlier iteration differs in a way that matters (the date format, and the
  filtering and sorting branches of \<^verbatim>\<open>list_tasks\<close>) both variants are given, with the
  iteration in the name.

  Conventions of the model.
  \<^item> A task is the dictionary built by \<^verbatim>\<open>add_task\<close>, with its fixed keys, as a record.
    The key \<^verbatim>\<open>comments\<close> exists from v5 on; Python's \<^verbatim>\<open>None\<close> is \<open>None\<close>.
  \<^item> Text is \<open>string\<close>. The methods \<^verbatim>\<open>str.strip\<close>, \<^verbatim>\<open>str.lower\<close>, \<^verbatim>\<open>str.capitalize\<close> and
    the function \<^verbatim>\<open>datetime.strptime\<close> belong to Python's library, not to the repository:
    every operation takes them as the argument \<open>L\<close>, a record \<open>pylib\<close>, and the general
    theorems hold for every such library, Python's own included. The examples are
    evaluated with \<open>ascii_lib\<close>, an instance that does what Python does on ASCII text.
  \<^item> Each \<^verbatim>\<open>input(...)\<close> of the source is an argument of the model (the line the user
    typed); \<^verbatim>\<open>datetime.today()\<close> is the argument \<open>today\<close>.
  \<^item> The source reports every outcome with \<^verbatim>\<open>print\<close> and returns \<^verbatim>\<open>None\<close>. The model
    returns the printed outcome lines as a list of \<open>message\<close>; prompts and purely
    informational lines are left out.
  \<^item> The in-memory list and the file \<^verbatim>\<open>tasks.json\<close> form the record \<open>world\<close>;
    \<^verbatim>\<open>save_tasks\<close> overwrites the file and is assumed to find it writable.
\<close>

subsection \<open>Data model\<close>

record task =
  title :: string
  category :: string
  priority :: string
  due_date :: string
  completed :: bool
  comments :: "string option"

text \<open>
  A naive \<^verbatim>\<open>datetime\<close>; Python compares two of them field by field, from the year down to
  the microsecond.
\<close>

record datetime =
  year :: nat
  month :: nat
  day :: nat
  hour :: nat
  minute :: nat
  second :: nat
  microsecond :: nat

definition dt_key :: "datetime \<Rightarrow> nat list" where
  "dt_key d = [year d, month d, day d, hour d, minute d, second d, microsecond d]"

definition dt_less :: "datetime \<Rightarrow> datetime \<Rightarrow> bool" where
  "dt_less a b = (dt_key a < dt_key b)"

text \<open>The calendar date of a \<^verbatim>\<open>datetime\<close>, and the order of calendar dates.\<close>

definition date_key :: "datetime \<Rightarrow> nat list" where
  "date_key d = [year d, month d, day d]"

text \<open>The two date formats of the source: \<^verbatim>\<open>"%Y-%m-%d"\<close> (v2, v3) and \<^verbatim>\<open>"%d-%m-%Y"\<close> (v5).\<close>

datatype date_format = YMD | DMY

subsection \<open>Python's library\<close>

text \<open>
  \<^verbatim>\<open>s.strip()\<close>, \<^verbatim>\<open>s.lower()\<close>, \<^verbatim>\<open>s.capitalize()\<close> and \<^verbatim>\<open>datetime.strptime(s, format)\<close>;
  a \<^verbatim>\<open>ValueError\<close> of \<^verbatim>\<open>strptime\<close> is \<open>None\<close>.
\<close>

record pylib =
  str_strip :: "string \<Rightarrow> string"
  str_lower :: "string \<Rightarrow> string"
  str_capitalize :: "string \<Rightarrow> string"
  dt_strptime :: "date_format \<Rightarrow> string \<Rightarrow> datetime option"

subsection \<open>The library on ASCII text, for the examples\<close>

text \<open>
  \<open>ascii_lib\<close> below does what Python does when every character is ASCII. It is not
  Python's library on other text (Python also strips Unicode spaces, changes the case
  of letters outside ASCII and reads Unicode digits), and no general theorem depends on
  it.
\<close>

definition upper_letters :: string where
  "upper_letters = ''ABCDEFGHIJKLMNOPQRSTUVWXYZ''"

definition lower_letters :: string where
  "lower_letters = ''abcdefghijklmnopqrstuvwxyz''"

definition lower_char :: "char \<Rightarrow> char" where
  "lower_char c = (case map_of (zip upper_letters lower_letters) c of Some d \<Rightarrow> d | None \<Rightarrow> c)"

definition upper_char :: "char \<Rightarrow> char" where
  "upper_char c = (case map_of (zip lower_letters upper_letters) c of Some d \<Rightarrow> d | None \<Rightarrow> c)"

text \<open>\<^verbatim>\<open>s.lower()\<close> on ASCII.\<close>

definition ascii_lower :: "string \<Rightarrow> string" where
  "ascii_lower s = map lower_char s"

text \<open>\<^verbatim>\<open>s.capitalize()\<close> on ASCII: first character upper case, the rest lower case.\<close>

fun ascii_capitalize :: "string \<Rightarrow> string" where
  "ascii_capitalize [] = []"
| "ascii_capitalize (c # cs) = upper_char c # ascii_lower cs"

text \<open>
  The ASCII characters that \<^verbatim>\<open>str.strip()\<close> removes: tab, line feed, vertical tab,
  form feed, carriage return, the four separators \<^verbatim>\<open>0x1c\<close> to \<^verbatim>\<open>0x1f\<close>, and space.
\<close>

definition is_space :: "char \<Rightarrow> bool" where
  "is_space c = (of_char c \<in> set [9, 10, 11, 12, 13, 28, 29, 30, 31, 32 :: nat])"

text \<open>\<^verbatim>\<open>s.strip()\<close> on ASCII.\<close>

definition ascii_strip :: "string \<Rightarrow> string" where
  "ascii_strip s = rev (dropWhile is_space (rev (dropWhile is_space s)))"

text \<open>
  \<^verbatim>\<open>datetime.strptime\<close> on ASCII, for the two formats.
  The standard library turns a format into a regular expression: \<^verbatim>\<open>%Y\<close> is four digits,
  \<^verbatim>\<open>%m\<close> is \<^verbatim>\<open>1[0-2]|0[1-9]|[1-9]\<close>, \<^verbatim>\<open>%d\<close> is \<^verbatim>\<open>3[0-1]|[1-2]\d|0[1-9]|[1-9]| [1-9]\<close>,
  the hyphens are literal and the whole text must be consumed. No field can contain a
  hyphen, so the text matches exactly when its three hyphen-separated fields match.
  The date must then exist in the calendar (years 1 to 9999). Every failure is a
  \<^verbatim>\<open>ValueError\<close>, here \<open>None\<close>. The result is midnight of the parsed date.
\<close>

fun split_on :: "char \<Rightarrow> string \<Rightarrow> string list" where
  "split_on c [] = [[]]"
| "split_on c (x # xs) =
     (if x = c then [] # split_on c xs
      else (let r = split_on c xs in (x # hd r) # tl r))"

definition is_digit :: "char \<Rightarrow> bool" where
  "is_digit c = (c \<in> set ''0123456789'')"

definition digit_val :: "char \<Rightarrow> nat" where
  "digit_val c = of_char c - 48"

definition digits_val :: "string \<Rightarrow> nat" where
  "digits_val s = foldl (\<lambda>n c. 10 * n + digit_val c) 0 s"

definition parse_year :: "string \<Rightarrow> nat option" where
  "parse_year s = (if length s = 4 \<and> list_all is_digit s then Some (digits_val s) else None)"

fun parse_month :: "string \<Rightarrow> nat option" where
  "parse_month [a] = (if a \<in> set ''123456789'' then Some (digit_val a) else None)"
| "parse_month [a, b] =
     (if (a = CHR ''1'' \<and> b \<in> set ''012'') \<or> (a = CHR ''0'' \<and> b \<in> set ''123456789'')
      then Some (digits_val [a, b]) else None)"
| "parse_month _ = None"

fun parse_day :: "string \<Rightarrow> nat option" where
  "parse_day [a] = (if a \<in> set ''123456789'' then Some (digit_val a) else None)"
| "parse_day [a, b] =
     (if (a = CHR ''3'' \<and> b \<in> set ''01'') \<or> (a \<in> set ''12'' \<and> is_digit b)
         \<or> (a = CHR ''0'' \<and> b \<in> set ''123456789'')
      then Some (digits_val [a, b])
      else if a = CHR '' '' \<and> b \<in> set ''123456789'' then Some (digit_val b)
      else None)"
| "parse_day _ = None"

definition leap_year :: "nat \<Rightarrow> bool" where
  "leap_year y = (y mod 4 = 0 \<and> (y mod 100 \<noteq> 0 \<or> y mod 400 = 0))"

definition days_in_month :: "nat \<Rightarrow> nat \<Rightarrow> nat" where
  "days_in_month y m =
     (if m = 2 then (if leap_year y then 29 else 28)
      else if m \<in> set [4, 6, 9, 11] then 30 else 31)"

definition make_date :: "nat option \<Rightarrow> nat option \<Rightarrow> nat option \<Rightarrow> datetime option" where
  "make_date yo mo d_o =
     (case (yo, mo, d_o) of
        (Some y, Some m, Some d) \<Rightarrow>
          (if 1 \<le> y \<and> d \<le> days_in_month y m
           then Some \<lparr>year = y, month = m, day = d, hour = 0, minute = 0, second = 0,
                      microsecond = 0\<rparr>
           else None)
      | _ \<Rightarrow> None)"

definition ascii_strptime :: "date_format \<Rightarrow> string \<Rightarrow> datetime option" where
  "ascii_strptime fmt s =
     (case (fmt, split_on CHR ''-'' s) of
        (YMD, [y, m, d]) \<Rightarrow> make_date (parse_year y) (parse_month m) (parse_day d)
      | (DMY, [d, m, y]) \<Rightarrow> make_date (parse_year y) (parse_month m) (parse_day d)
      | _ \<Rightarrow> None)"

definition ascii_lib :: pylib where
  "ascii_lib =
     \<lparr>str_strip = ascii_strip, str_lower = ascii_lower, str_capitalize = ascii_capitalize,
      dt_strptime = ascii_strptime\<rparr>"

subsection \<open>Printed outcomes\<close>

datatype message =
    InvalidPriority
  | PastDueDate
  | InvalidDateFormat
  | TaskAdded string
  | TaskRemoved string
  | TaskNotFound
  | TaskUpdated string
  | TaskMarkedComplete string
  | CompletedRemoved
  | NoCompletedTasks
  | AllRemoved
  | RemovalCanceled

subsection \<open>Validators\<close>

definition valid_priorities :: "string list" where
  "valid_priorities = [''Low'', ''Medium'', ''High'']"

definition validate_priority :: "string \<Rightarrow> bool \<times> message list" where
  "validate_priority p =
     (if p \<notin> set valid_priorities then (False, [InvalidPriority]) else (True, []))"

text \<open>
  \<^verbatim>\<open>validate_due_date\<close>: the parsed value is midnight of the due date, and it is compared
  with \<^verbatim>\<open>datetime.today()\<close>, the current date \<^emph>\<open>and time of day\<close>.
\<close>

definition validate_due_date ::
  "pylib \<Rightarrow> date_format \<Rightarrow> datetime \<Rightarrow> string \<Rightarrow> bool \<times> message list" where
  "validate_due_date L fmt today s =
     (case dt_strptime L fmt s of
        Some due_date_obj \<Rightarrow>
          (if dt_less due_date_obj today then (False, [PastDueDate]) else (True, []))
      | None \<Rightarrow> (False, [InvalidDateFormat]))"

definition validate_due_date_v2 :: "pylib \<Rightarrow> datetime \<Rightarrow> string \<Rightarrow> bool \<times> message list" where
  "validate_due_date_v2 L = validate_due_date L YMD"

definition validate_due_date_v5 :: "pylib \<Rightarrow> datetime \<Rightarrow> string \<Rightarrow> bool \<times> message list" where
  "validate_due_date_v5 L = validate_due_date L DMY"

subsection \<open>Queries: \<^verbatim>\<open>list_tasks\<close>\<close>

text \<open>
  \<^verbatim>\<open>sorted(xs, key=k, reverse=True)\<close>: CPython reverses the list, sorts it stably in
  ascending key order and reverses the result, so equal keys keep their original order.
  \<open>sort_key\<close> is HOL's stable insertion sort.
\<close>

definition sorted_reverse :: "('a \<Rightarrow> 'k::linorder) \<Rightarrow> 'a list \<Rightarrow> 'a list" where
  "sorted_reverse k xs = rev (sort_key k (rev xs))"

text \<open>
  \<^verbatim>\<open>list_tasks(tasks, filter_by)\<close> of v1, v2 and v3; the result is the sequence of tasks it
  prints, none when the collection is empty. The keys are the stored strings.
\<close>

definition list_tasks_v2 :: "task list \<Rightarrow> string option \<Rightarrow> task list" where
  "list_tasks_v2 ts filter_by =
     (if ts = [] then []
      else if filter_by = Some ''incomplete'' then filter (\<lambda>t. \<not> completed t) ts
      else if filter_by = Some ''complete'' then filter (\<lambda>t. completed t) ts
      else if filter_by = Some ''priority'' then sorted_reverse priority ts
      else if filter_by = Some ''due_date'' then sort_key due_date ts
      else ts)"

text \<open>\<^verbatim>\<open>list_tasks(tasks, filter_by)\<close> of v5: the parameter is never read.\<close>

definition list_tasks_v5 :: "task list \<Rightarrow> string option \<Rightarrow> task list" where
  "list_tasks_v5 ts filter_by = (if ts = [] then [] else ts)"

text \<open>The rank of a priority that the specification asks the order to follow.\<close>

definition priority_rank :: "string \<Rightarrow> nat" where
  "priority_rank p =
     (if p = ''High'' then 3 else if p = ''Medium'' then 2 else if p = ''Low'' then 1 else 0)"

definition mk_task :: "string \<Rightarrow> string \<Rightarrow> string \<Rightarrow> bool \<Rightarrow> task" where
  "mk_task t p d c =
     \<lparr>title = t, category = ''Work'', priority = p, due_date = d, completed = c,
      comments = None\<rparr>"

subsection \<open>The task store\<close>

text \<open>What \<^verbatim>\<open>json.load\<close> can return.\<close>

datatype json =
    JNull
  | JBool bool
  | JNumber int
  | JString string
  | JArray "json list"
  | JObject "(string \<times> json) list"

text \<open>
  The state of \<^verbatim>\<open>tasks.json\<close>, by what reading it does: there is no such file; the file
  cannot be opened for reading; its bytes are not text in the expected encoding; its text
  is not JSON; or it holds a JSON value.
\<close>

datatype disk = Absent | Unreadable | NotText | Malformed | Holds json

datatype py_exn = FileNotFoundError | PermissionError | UnicodeDecodeError | JSONDecodeError

text \<open>The body of the \<^verbatim>\<open>try\<close>: \<^verbatim>\<open>with open(TASKS_FILE, "r") as file: return json.load(file)\<close>.\<close>

definition read_json :: "disk \<Rightarrow> py_exn + json" where
  "read_json d =
     (case d of
        Absent \<Rightarrow> Inl FileNotFoundError
      | Unreadable \<Rightarrow> Inl PermissionError
      | NotText \<Rightarrow> Inl UnicodeDecodeError
      | Malformed \<Rightarrow> Inl JSONDecodeError
      | Holds v \<Rightarrow> Inr v)"

text \<open>
  \<^verbatim>\<open>load_tasks\<close>: \<^verbatim>\<open>except (FileNotFoundError, json.JSONDecodeError): return []\<close>; any
  other exception leaves the function (\<open>Inl\<close>).
\<close>

definition load_tasks :: "disk \<Rightarrow> py_exn + json" where
  "load_tasks d =
     (case read_json d of
        Inr v \<Rightarrow> Inr v
      | Inl e \<Rightarrow>
          (if e = FileNotFoundError \<or> e = JSONDecodeError then Inr (JArray []) else Inl e))"

text \<open>\<^verbatim>\<open>json.dump(tasks, file, indent=4)\<close>: the keys in the order \<^verbatim>\<open>add_task\<close> inserts them.\<close>

definition dump_task :: "task \<Rightarrow> json" where
  "dump_task t =
     JObject [(''title'', JString (title t)), (''category'', JString (category t)),
              (''priority'', JString (priority t)), (''due_date'', JString (due_date t)),
              (''completed'', JBool (completed t)),
              (''comments'', (case comments t of None \<Rightarrow> JNull | Some c \<Rightarrow> JString c))]"

definition dump :: "task list \<Rightarrow> json" where
  "dump ts = JArray (map dump_task ts)"

record world =
  tasks :: "task list"
  store :: disk

text \<open>\<^verbatim>\<open>save_tasks(tasks)\<close>\<close>

definition save_tasks :: "world \<Rightarrow> world" where
  "save_tasks w = w\<lparr>store := Holds (dump (tasks w))\<rparr>"

subsection \<open>Task operations (v5)\<close>

text \<open>Python's \<^verbatim>\<open>a or b\<close> on strings: \<^verbatim>\<open>a\<close> unless it is empty.\<close>

definition py_or :: "string \<Rightarrow> string \<Rightarrow> string" where
  "py_or a b = (if a \<noteq> [] then a else b)"

text \<open>
  The loop \<^verbatim>\<open>for task in tasks: if task["title"].lower() == title.lower(): ...; return\<close>
  runs its body on the first task whose title matches; \<open>find_task\<close> is the index of that
  task.
\<close>

fun find_task :: "pylib \<Rightarrow> string \<Rightarrow> task list \<Rightarrow> nat option" where
  "find_task L t [] = None"
| "find_task L t (x # xs) =
     (if str_lower L (title x) = str_lower L t then Some 0
      else map_option Suc (find_task L t xs))"

record add_input =
  a_title :: string
  a_category :: string
  a_priority :: string
  a_due_date :: string
  a_comments :: string

definition add_task ::
  "pylib \<Rightarrow> datetime \<Rightarrow> add_input \<Rightarrow> world \<Rightarrow> world \<times> message list" where
  "add_task L today i w =
     (let new_title = str_strip L (a_title i);
          new_category = str_strip L (a_category i);
          new_priority = str_capitalize L (str_strip L (a_priority i))
      in if \<not> fst (validate_priority new_priority) then (w, snd (validate_priority new_priority))
         else
           (let new_due_date = str_strip L (a_due_date i)
            in if \<not> fst (validate_due_date_v5 L today new_due_date)
               then (w, snd (validate_due_date_v5 L today new_due_date))
               else
                 (let additional_comments = str_strip L (a_comments i);
                      new_task = \<lparr>title = new_title, category = new_category,
                                  priority = new_priority, due_date = new_due_date,
                                  completed = False,
                                  comments = (if additional_comments \<noteq> []
                                              then Some additional_comments else None)\<rparr>
                  in (save_tasks (w\<lparr>tasks := tasks w @ [new_task]\<rparr>),
                      [TaskAdded new_title]))))"

text \<open>\<^verbatim>\<open>tasks.remove(task)\<close> deletes the first element equal to \<^verbatim>\<open>task\<close>: \<open>remove1\<close>.\<close>

definition remove_task :: "pylib \<Rightarrow> string \<Rightarrow> world \<Rightarrow> world \<times> message list" where
  "remove_task L title_in w =
     (let t = str_strip L title_in
      in case find_task L t (tasks w) of
           Some k \<Rightarrow> (save_tasks (w\<lparr>tasks := remove1 (tasks w ! k) (tasks w)\<rparr>), [TaskRemoved t])
         | None \<Rightarrow> (w, [TaskNotFound]))"

definition remove_completed_tasks :: "world \<Rightarrow> world \<times> message list" where
  "remove_completed_tasks w =
     (let initial_count = length (tasks w);
          w1 = w\<lparr>tasks := filter (\<lambda>t. \<not> completed t) (tasks w)\<rparr>
      in if length (tasks w1) < initial_count then (save_tasks w1, [CompletedRemoved])
         else (w1, [NoCompletedTasks]))"

definition remove_all_tasks :: "pylib \<Rightarrow> string \<Rightarrow> world \<Rightarrow> world \<times> message list" where
  "remove_all_tasks L confirm_in w =
     (if str_lower L (str_strip L confirm_in) = ''yes''
      then (save_tasks (w\<lparr>tasks := []\<rparr>), [AllRemoved])
      else (w, [RemovalCanceled]))"

record edit_input =
  e_lookup :: string
  e_title :: string
  e_category :: string
  e_priority :: string
  e_due_date :: string
  e_comments :: string

definition edit_task ::
  "pylib \<Rightarrow> datetime \<Rightarrow> edit_input \<Rightarrow> world \<Rightarrow> world \<times> message list" where
  "edit_task L today i w =
     (case find_task L (str_strip L (e_lookup i)) (tasks w) of
        None \<Rightarrow> (w, [TaskNotFound])
      | Some k \<Rightarrow>
          (let old = tasks w ! k;
               new_title = py_or (str_strip L (e_title i)) (title old);
               new_category = py_or (str_strip L (e_category i)) (category old);
               new_priority =
                 py_or (str_capitalize L (str_strip L (e_priority i))) (priority old)
           in if new_priority \<noteq> [] \<and> \<not> fst (validate_priority new_priority)
              then (w, snd (validate_priority new_priority))
              else
                (let new_due_date = py_or (str_strip L (e_due_date i)) (due_date old)
                 in if new_due_date \<noteq> []
                       \<and> \<not> fst (validate_due_date_v5 L today new_due_date)
                    then (w, snd (validate_due_date_v5 L today new_due_date))
                    else
                      (let new_comments = str_strip L (e_comments i);
                           kept = (if new_comments \<noteq> [] then Some new_comments
                                   else comments old);
                           new = old\<lparr>title := new_title, category := new_category,
                                     priority := new_priority, due_date := new_due_date,
                                     comments := kept\<rparr>
                       in (save_tasks (w\<lparr>tasks := (tasks w)[k := new]\<rparr>),
                           [TaskUpdated new_title])))))"

definition mark_task_complete :: "pylib \<Rightarrow> string \<Rightarrow> world \<Rightarrow> world \<times> message list" where
  "mark_task_complete L title_in w =
     (let t = str_strip L title_in
      in case find_task L t (tasks w) of
           Some k \<Rightarrow>
             (save_tasks (w\<lparr>tasks := (tasks w)[k := (tasks w ! k)\<lparr>completed := True\<rparr>]\<rparr>),
              [TaskMarkedComplete t])
         | None \<Rightarrow> (w, [TaskNotFound]))"

subsection \<open>Sequences of operations\<close>

datatype op =
    Add datetime add_input
  | Remove string
  | RemoveAll string
  | Edit datetime edit_input
  | MarkComplete string
  | RemoveCompleted

fun step :: "pylib \<Rightarrow> world \<Rightarrow> op \<Rightarrow> world" where
  "step L w (Add today i) = fst (add_task L today i w)"
| "step L w (Remove t) = fst (remove_task L t w)"
| "step L w (RemoveAll c) = fst (remove_all_tasks L c w)"
| "step L w (Edit today i) = fst (edit_task L today i w)"
| "step L w (MarkComplete t) = fst (mark_task_complete L t w)"
| "step L w RemoveCompleted = fst (remove_completed_tasks w)"

text \<open>The program starts with the empty collection when there is no file.\<close>

definition empty_world :: world where
  "empty_world = \<lparr>tasks = [], store = Absent\<rparr>"

definition run :: "pylib \<Rightarrow> op list \<Rightarrow> world" where
  "run L ops = foldl (step L) empty_world ops"

text \<open>
  An addition with a blank title that passes both validations, which is the one
  operation that stores an empty title.
\<close>

fun adds_blank_title :: "pylib \<Rightarrow> op \<Rightarrow> bool" where
  "adds_blank_title L (Add today i) =
     (str_strip L (a_title i) = []
      \<and> fst (validate_priority (str_capitalize L (str_strip L (a_priority i))))
      \<and> fst (validate_due_date_v5 L today (str_strip L (a_due_date i))))"
| "adds_blank_title L _ = False"

text \<open>A moment in time, for the examples.\<close>

definition at_time :: "nat \<Rightarrow> nat \<Rightarrow> nat \<Rightarrow> nat \<Rightarrow> datetime" where
  "at_time y m d h =
     \<lparr>year = y, month = m, day = d, hour = h, minute = 0, second = 0, microsecond = 0\<rparr>"

text \<open>The inputs of an edit in which every field of the patch is left blank.\<close>

definition blank_edit :: "string \<Rightarrow> edit_input" where
  "blank_edit t = \<lparr>e_lookup = t, e_title = '''', e_category = '''', e_priority = '''',
                   e_due_date = '''', e_comments = ''''\<rparr>"

text \<open>Collections and inputs for the examples.\<close>

definition two_tasks :: world where
  "two_tasks =
     \<lparr>tasks = [mk_task ''Report'' ''High'' ''05-12-2026'' False,
               mk_task ''Shop'' ''Low'' ''06-12-2026'' True,
               mk_task ''shop'' ''Medium'' ''07-12-2026'' False],
      store = Absent\<rparr>"

definition five_tasks :: world where
  "five_tasks =
     \<lparr>tasks = [mk_task ''a'' ''High'' ''05-12-2026'' False,
               mk_task ''b'' ''Low'' ''06-12-2026'' True,
               mk_task ''c'' ''Medium'' ''07-12-2026'' False,
               mk_task ''d'' ''Low'' ''08-12-2026'' True,
               mk_task ''e'' ''High'' ''09-12-2026'' False],
      store = Malformed\<rparr>"

definition mk_add :: "string \<Rightarrow> string \<Rightarrow> string \<Rightarrow> add_input" where
  "mk_add t p d =
     \<lparr>a_title = t, a_category = '' Work'', a_priority = p, a_due_date = d, a_comments = '' ''\<rparr>"

definition example_ops :: "op list" where
  "example_ops =
     [Add (at_time 2026 11 4 9) (mk_add ''Pay'' ''high'' ''05-12-2026''),
      Add (at_time 2026 11 4 9) (mk_add '' '' ''urgent'' ''05-12-2026''),
      Add (at_time 2026 11 4 9) (mk_add ''Call'' ''low'' ''06-12-2026''),
      Add (at_time 2026 11 4 9) (mk_add ''Old'' ''medium'' ''07-12-2026''),
      Edit (at_time 2026 11 5 9)
        \<lparr>e_lookup = ''pay'', e_title = ''Plan'', e_category = '''', e_priority = '''',
         e_due_date = '''', e_comments = ''soon''\<rparr>,
      MarkComplete ''OLD'',
      RemoveCompleted,
      Remove ''nothing'']"

section \<open>Properties\<close>

subsection \<open>Sorting by priority\<close>

text \<open>
  What the priority branch of \<^verbatim>\<open>list_tasks\<close> (v1 to v3) does for every collection: it keeps
  the order of tasks that have the same priority, and the priority \<^emph>\<open>strings\<close> of the result
  descend in the order of text.
\<close>

lemma sorted_reverse_stable:
  "filter (\<lambda>x. k x = v) (sorted_reverse k xs) = filter (\<lambda>x. k x = v) xs"
  by (simp add: sorted_reverse_def rev_filter [symmetric] sort_key_stable)

lemma sorted_reverse_descending: "sorted (rev (map k (sorted_reverse k xs)))"
  by (simp add: sorted_reverse_def rev_map [symmetric])

lemma sorted_reverse_set: "set (sorted_reverse k xs) = set xs"
  by (simp add: sorted_reverse_def)

text \<open>
  C1. The claim: sorting by priority is a stable reordering that descends by the rank
  High 3, Medium 2, Low 1, so that High, Low, Medium becomes High, Medium, Low.
  The source compares the priority strings, and as text High is below Low, which is below
  Medium: on that input the priority branch of \<^verbatim>\<open>list_tasks\<close> (v2) gives Medium, Low,
  High, whose ranks 2, 1, 3 do not descend.
\<close>

theorem list_tasks_v2_priority_lexical:
  "map priority
     (list_tasks_v2 [mk_task ''a'' ''High'' ''2026-12-01'' False,
                     mk_task ''b'' ''Low'' ''2026-12-01'' False,
                     mk_task ''c'' ''Medium'' ''2026-12-01'' False] (Some ''priority''))
     = [''Medium'', ''Low'', ''High'']
   \<and> map (\<lambda>t. priority_rank (priority t))
     (list_tasks_v2 [mk_task ''a'' ''High'' ''2026-12-01'' False,
                     mk_task ''b'' ''Low'' ''2026-12-01'' False,
                     mk_task ''c'' ''Medium'' ''2026-12-01'' False] (Some ''priority''))
     = [2, 1, 3]"
  by (simp add: list_tasks_v2_def sorted_reverse_def mk_task_def priority_rank_def)

subsection \<open>Validating a due date\<close>

text \<open>What the two validators accept, and what they print when they refuse.\<close>

lemma validate_priority_iff:
  "fst (validate_priority p) \<longleftrightarrow> p \<in> {''Low'', ''Medium'', ''High''}"
  by (auto simp: validate_priority_def valid_priorities_def)

lemma validate_priority_msg:
  "\<not> fst (validate_priority p) \<Longrightarrow> snd (validate_priority p) = [InvalidPriority]"
  by (simp add: validate_priority_def split: if_splits)

lemma validate_due_date_iff:
  "fst (validate_due_date L fmt today s) \<longleftrightarrow>
     (\<exists>d. dt_strptime L fmt s = Some d \<and> \<not> dt_less d today)"
  by (cases "dt_strptime L fmt s") (auto simp: validate_due_date_def)

lemma validate_due_date_msg:
  "\<not> fst (validate_due_date L fmt today s) \<Longrightarrow>
     snd (validate_due_date L fmt today s)
       = (if dt_strptime L fmt s = None then [InvalidDateFormat] else [PastDueDate])"
  by (cases "dt_strptime L fmt s") (auto simp: validate_due_date_def split: if_splits)

text \<open>
  \<^verbatim>\<open>strptime\<close> yields midnight of the date it reads. So the source accepts a due date
  exactly when it parses and its calendar date is after today's, or is today's and the
  clock reads exactly midnight.
\<close>

lemma validate_due_date_accepts:
  assumes midnight:
    "\<And>d. dt_strptime L fmt s = Some d \<Longrightarrow>
       hour d = 0 \<and> minute d = 0 \<and> second d = 0 \<and> microsecond d = 0"
  shows "fst (validate_due_date L fmt today s) \<longleftrightarrow>
     (\<exists>d. dt_strptime L fmt s = Some d
        \<and> (date_key today < date_key d
           \<or> date_key today = date_key d \<and> hour today = 0 \<and> minute today = 0
              \<and> second today = 0 \<and> microsecond today = 0))"
proof (cases "dt_strptime L fmt s")
  case None
  then show ?thesis by (simp add: validate_due_date_def)
next
  case (Some d)
  from midnight [OF Some]
  have key: "\<not> dt_less d today \<longleftrightarrow>
          date_key today < date_key d
          \<or> date_key today = date_key d \<and> hour today = 0 \<and> minute today = 0
              \<and> second today = 0 \<and> microsecond today = 0"
    by (auto simp: dt_less_def dt_key_def date_key_def)
  have "fst (validate_due_date L fmt today s) \<longleftrightarrow> \<not> dt_less d today"
    using Some by (simp add: validate_due_date_def)
  then show ?thesis unfolding key using Some by simp
qed

lemma make_date_midnight:
  "make_date yo mo d_o = Some d \<Longrightarrow>
     hour d = 0 \<and> minute d = 0 \<and> second d = 0 \<and> microsecond d = 0"
  by (auto simp: make_date_def split: option.splits if_splits)

lemma ascii_strptime_midnight:
  assumes "dt_strptime ascii_lib fmt s = Some d"
  shows "hour d = 0 \<and> minute d = 0 \<and> second d = 0 \<and> microsecond d = 0"
proof -
  from assms obtain yo mo d_o where "make_date yo mo d_o = Some d"
    by (auto simp: ascii_lib_def ascii_strptime_def split: date_format.splits list.splits)
  then show ?thesis by (rule make_date_midnight)
qed

text \<open>
  C2. The claim: \<^verbatim>\<open>validate_due_date\<close> accepts a text exactly when it parses under the
  date format and the parsed calendar date is not before today; a due date equal to
  today's date is accepted.
  In the source, at noon of 4 November 2026 the due date 4 November 2026 parses in both
  formats (v2 and v5), names today's calendar date, and is rejected as a past date.
\<close>

theorem validate_due_date_rejects_today:
  "validate_due_date_v2 ascii_lib (at_time 2026 11 4 12) ''2026-11-04'' = (False, [PastDueDate])
   \<and> validate_due_date_v5 ascii_lib (at_time 2026 11 4 12) ''04-11-2026''
       = (False, [PastDueDate])
   \<and> map_option date_key (dt_strptime ascii_lib YMD ''2026-11-04'')
       = Some (date_key (at_time 2026 11 4 12))
   \<and> map_option date_key (dt_strptime ascii_lib DMY ''04-11-2026'')
       = Some (date_key (at_time 2026 11 4 12))"
  by code_simp

subsection \<open>Editing with a blank patch\<close>

lemma update_same:
  fixes x :: task
  shows "priority x = p \<Longrightarrow> x\<lparr>priority := p\<rparr> = x"
    and "due_date x = d \<Longrightarrow> x\<lparr>due_date := d\<rparr> = x"
  by auto

text \<open>
  Whatever its outcome, an edit whose patch is blank leaves the collection as it was
  (\<^verbatim>\<open>strip\<close> and \<^verbatim>\<open>capitalize\<close> leave the empty text empty).
\<close>

lemma edit_task_blank_keeps_tasks:
  assumes "str_strip L [] = []" and "str_capitalize L [] = []"
  shows "tasks (fst (edit_task L today (blank_edit t) w)) = tasks w"
proof (cases "find_task L (str_strip L t) (tasks w)")
  case None
  then show ?thesis by (simp add: edit_task_def blank_edit_def)
next
  case (Some k)
  with assms show ?thesis
    by (simp add: edit_task_def blank_edit_def Let_def save_tasks_def py_or_def update_same)
qed

text \<open>
  C3. The claim: an edit of a task that is present, with every field of the patch blank,
  leaves every field as it was, succeeds, and leaves the other tasks unchanged; priority
  and due date are validated again only if they changed.
  The source validates the kept priority and the kept due date again. For a task due on
  5 November 2026, a blank edit on 6 November 2026 is abandoned with the past-date
  warning: nothing is saved and no update is reported.
\<close>

theorem edit_task_blank_aborts:
  "edit_task ascii_lib (at_time 2026 11 6 9) (blank_edit ''Report'')
     \<lparr>tasks = [mk_task ''Report'' ''High'' ''05-11-2026'' False], store = Absent\<rparr>
   = (\<lparr>tasks = [mk_task ''Report'' ''High'' ''05-11-2026'' False], store = Absent\<rparr>,
      [PastDueDate])"
  by code_simp

subsection \<open>Filtering by completion\<close>

text \<open>
  In v1, v2 and v3 the two completion branches of \<^verbatim>\<open>list_tasks\<close> keep exactly the tasks
  whose flag is the wanted one, in their order.
\<close>

lemma list_tasks_v2_filter:
  "list_tasks_v2 ts (Some (if want_completed then ''complete'' else ''incomplete''))
     = filter (\<lambda>t. completed t = want_completed) ts"
  by (simp add: list_tasks_v2_def)

text \<open>
  C4. The claim: filtering by completion returns exactly the tasks whose \<^verbatim>\<open>completed\<close>
  field equals the flag, in their original order, and does not change the collection.
  \<^verbatim>\<open>list_tasks\<close> of v5 never reads \<^verbatim>\<open>filter_by\<close>: asked for the completed tasks of a
  collection with one pending and one completed task, it lists both.
\<close>

theorem list_tasks_v5_ignores_filter:
  "list_tasks_v5 [mk_task ''a'' ''High'' ''05-12-2026'' False,
                  mk_task ''b'' ''Low'' ''06-12-2026'' True] (Some ''complete'')
   = [mk_task ''a'' ''High'' ''05-12-2026'' False, mk_task ''b'' ''Low'' ''06-12-2026'' True]"
  by (simp add: list_tasks_v5_def)

subsection \<open>The first match of a title\<close>

lemma find_task_None:
  "find_task L t ts = None \<longleftrightarrow> (\<forall>x\<in>set ts. str_lower L (title x) \<noteq> str_lower L t)"
  by (induction ts) auto

lemma find_task_Some:
  "find_task L t ts = Some k \<Longrightarrow>
     k < length ts \<and> str_lower L (title (ts ! k)) = str_lower L t
     \<and> (\<forall>j<k. str_lower L (title (ts ! j)) \<noteq> str_lower L t)"
proof (induction ts arbitrary: k)
  case Nil
  then show ?case by simp
next
  case (Cons x xs)
  show ?case
  proof (cases "str_lower L (title x) = str_lower L t")
    case True
    with Cons.prems have "k = 0" by simp
    with True show ?thesis by simp
  next
    case False
    with Cons.prems obtain k' where k': "find_task L t xs = Some k'" and k: "k = Suc k'"
      by auto
    from Cons.IH [OF k'] have ih: "k' < length xs"
      "str_lower L (title (xs ! k')) = str_lower L t"
      "\<forall>j<k'. str_lower L (title (xs ! j)) \<noteq> str_lower L t" by simp_all
    have "str_lower L (title ((x # xs) ! j)) \<noteq> str_lower L t" if "j < k" for j
    proof (cases j)
      case 0
      with False show ?thesis by simp
    next
      case (Suc i)
      with that k ih(3) show ?thesis by simp
    qed
    with ih(1,2) k show ?thesis by simp
  qed
qed

text \<open>The index found depends on the titles only.\<close>

lemma find_task_titles:
  "map title ts' = map title ts \<Longrightarrow> find_task L t ts' = find_task L t ts"
proof (induction ts arbitrary: ts')
  case Nil
  then show ?case by simp
next
  case (Cons x xs)
  from Cons.prems obtain y ys where ts': "ts' = y # ys" and y: "title y = title x"
    and ys: "map title ys = map title xs"
    by (cases ts') simp_all
  from Cons.IH [OF ys] have "find_task L t ys = find_task L t xs" .
  with ts' y show ?case by simp
qed

lemma map_title_mark:
  "map title (ts[k := (ts ! k)\<lparr>completed := True\<rparr>]) = map title ts"
proof (rule nth_equalityI)
  show "length (map title (ts[k := (ts ! k)\<lparr>completed := True\<rparr>])) = length (map title ts)"
    by simp
next
  fix i
  assume "i < length (map title (ts[k := (ts ! k)\<lparr>completed := True\<rparr>]))"
  then have "i < length ts" by simp
  then show "map title (ts[k := (ts ! k)\<lparr>completed := True\<rparr>]) ! i = map title ts ! i"
    by (cases "i = k") simp_all
qed

lemma find_task_mark:
  "find_task L t (ts[k := (ts ! k)\<lparr>completed := True\<rparr>]) = find_task L t ts"
  by (rule find_task_titles) (rule map_title_mark)

subsection \<open>Adding a task\<close>

text \<open>
  C5 as stated, that a successful \<^verbatim>\<open>add_task\<close> returns the new task, fails: the source
  returns nothing and prints a line that names the title only. Two additions on
  4 November 2026 with the same title, one of low priority due on 5 December and one
  of high priority due on 6 December, are both accepted and give the same report, while
  the tasks they append differ.
\<close>

theorem add_task_report_counterexample:
  "snd (add_task ascii_lib (at_time 2026 11 4 9) (mk_add ''Pay'' ''low'' ''05-12-2026'') two_tasks)
     = [TaskAdded ''Pay'']
   \<and> snd (add_task ascii_lib (at_time 2026 11 4 9) (mk_add ''Pay'' ''high'' ''06-12-2026'')
            two_tasks)
     = [TaskAdded ''Pay'']
   \<and> map priority
        (tasks (fst (add_task ascii_lib (at_time 2026 11 4 9)
                       (mk_add ''Pay'' ''low'' ''05-12-2026'') two_tasks)))
     = [''High'', ''Low'', ''Medium'', ''Low'']
   \<and> map priority
        (tasks (fst (add_task ascii_lib (at_time 2026 11 4 9)
                       (mk_add ''Pay'' ''high'' ''06-12-2026'') two_tasks)))
     = [''High'', ''Low'', ''Medium'', ''High'']"
  by code_simp

text \<open>
  C5, amended. For every collection and every input of \<^verbatim>\<open>add_task\<close> (v5), with the priority
  taken after \<^verbatim>\<open>strip\<close> and \<^verbatim>\<open>capitalize\<close> and the other fields after \<^verbatim>\<open>strip\<close>, as the
  source does before it validates:
  if the priority is refused, the invalid-priority warning is printed and the collection
  and the file are as before;
  if the priority passes and the due date is refused, the bad-format warning (the text
  does not parse) or the past-date warning (it parses) is printed, and the collection
  and the file are as before;
  if both pass, exactly one task is appended, carrying the submitted title, category,
  priority, due date and comments (no comments when the line is blank), not completed;
  the collection is saved, and a confirmation naming the title is printed.
  Nothing is returned: neither the error nor the new task.
\<close>

theorem add_task_spec:
  "(\<not> fst (validate_priority (str_capitalize L (str_strip L (a_priority i)))) \<longrightarrow>
      add_task L today i w = (w, [InvalidPriority]))
   \<and> (fst (validate_priority (str_capitalize L (str_strip L (a_priority i))))
        \<and> \<not> fst (validate_due_date_v5 L today (str_strip L (a_due_date i))) \<longrightarrow>
      add_task L today i w =
        (w, if dt_strptime L DMY (str_strip L (a_due_date i)) = None then [InvalidDateFormat]
            else [PastDueDate]))
   \<and> (fst (validate_priority (str_capitalize L (str_strip L (a_priority i))))
        \<and> fst (validate_due_date_v5 L today (str_strip L (a_due_date i))) \<longrightarrow>
      tasks (fst (add_task L today i w)) =
        tasks w @ [\<lparr>title = str_strip L (a_title i), category = str_strip L (a_category i),
                    priority = str_capitalize L (str_strip L (a_priority i)),
                    due_date = str_strip L (a_due_date i), completed = False,
                    comments = (if str_strip L (a_comments i) = [] then None
                                else Some (str_strip L (a_comments i)))\<rparr>]
      \<and> store (fst (add_task L today i w)) = Holds (dump (tasks (fst (add_task L today i w))))
      \<and> snd (add_task L today i w) = [TaskAdded (str_strip L (a_title i))])"
proof (intro conjI impI)
  assume "\<not> fst (validate_priority (str_capitalize L (str_strip L (a_priority i))))"
  then show "add_task L today i w = (w, [InvalidPriority])"
    by (simp add: add_task_def Let_def validate_priority_msg)
next
  assume "fst (validate_priority (str_capitalize L (str_strip L (a_priority i))))
        \<and> \<not> fst (validate_due_date_v5 L today (str_strip L (a_due_date i)))"
  then show "add_task L today i w =
        (w, if dt_strptime L DMY (str_strip L (a_due_date i)) = None then [InvalidDateFormat]
            else [PastDueDate])"
    using validate_due_date_msg [of L DMY today "str_strip L (a_due_date i)"]
    by (simp add: add_task_def Let_def validate_due_date_v5_def)
next
  assume ok: "fst (validate_priority (str_capitalize L (str_strip L (a_priority i))))
        \<and> fst (validate_due_date_v5 L today (str_strip L (a_due_date i)))"
  then show "tasks (fst (add_task L today i w)) =
        tasks w @ [\<lparr>title = str_strip L (a_title i), category = str_strip L (a_category i),
                    priority = str_capitalize L (str_strip L (a_priority i)),
                    due_date = str_strip L (a_due_date i), completed = False,
                    comments = (if str_strip L (a_comments i) = [] then None
                                else Some (str_strip L (a_comments i)))\<rparr>]"
    by (simp add: add_task_def Let_def save_tasks_def)
  from ok show "store (fst (add_task L today i w))
      = Holds (dump (tasks (fst (add_task L today i w))))"
    by (simp add: add_task_def Let_def save_tasks_def)
  from ok show "snd (add_task L today i w) = [TaskAdded (str_strip L (a_title i))]"
    by (simp add: add_task_def Let_def)
qed

text \<open>
  The four cases of C5 on a collection of three tasks, on 4 November 2026: an unknown
  priority, a date in the other format, a date of the day before, and an accepted task.
\<close>

theorem add_task_spec_witness:
  "\<not> fst (validate_priority
           (str_capitalize ascii_lib
              (str_strip ascii_lib (a_priority (mk_add ''Pay'' ''urgent'' ''05-12-2026'')))))
   \<and> add_task ascii_lib (at_time 2026 11 4 9) (mk_add ''Pay'' ''urgent'' ''05-12-2026'') two_tasks
       = (two_tasks, [InvalidPriority])
   \<and> add_task ascii_lib (at_time 2026 11 4 9) (mk_add ''Pay'' ''low'' ''2026-12-05'') two_tasks
       = (two_tasks, [InvalidDateFormat])
   \<and> add_task ascii_lib (at_time 2026 11 4 9) (mk_add ''Pay'' ''low'' ''03-11-2026'') two_tasks
       = (two_tasks, [PastDueDate])
   \<and> tasks (fst (add_task ascii_lib (at_time 2026 11 4 9)
                    (mk_add '' Pay '' ''hIGH'' '' 05-12-2026'') two_tasks))
       = tasks two_tasks @
         [\<lparr>title = ''Pay'', category = ''Work'', priority = ''High'', due_date = ''05-12-2026'',
           completed = False, comments = None\<rparr>]
   \<and> snd (add_task ascii_lib (at_time 2026 11 4 9)
             (mk_add '' Pay '' ''hIGH'' '' 05-12-2026'') two_tasks)
       = [TaskAdded ''Pay'']"
proof -
  have p1: "\<not> fst (validate_priority
           (str_capitalize ascii_lib
              (str_strip ascii_lib (a_priority (mk_add ''Pay'' ''urgent'' ''05-12-2026'')))))"
    by code_simp
  have p2: "fst (validate_priority
           (str_capitalize ascii_lib
              (str_strip ascii_lib (a_priority (mk_add ''Pay'' ''low'' ''2026-12-05'')))))
     \<and> \<not> fst (validate_due_date_v5 ascii_lib (at_time 2026 11 4 9)
               (str_strip ascii_lib (a_due_date (mk_add ''Pay'' ''low'' ''2026-12-05''))))"
    by code_simp
  have n2: "dt_strptime ascii_lib DMY
              (str_strip ascii_lib (a_due_date (mk_add ''Pay'' ''low'' ''2026-12-05''))) = None"
    by code_simp
  have p3: "fst (validate_priority
           (str_capitalize ascii_lib
              (str_strip ascii_lib (a_priority (mk_add ''Pay'' ''low'' ''03-11-2026'')))))
     \<and> \<not> fst (validate_due_date_v5 ascii_lib (at_time 2026 11 4 9)
               (str_strip ascii_lib (a_due_date (mk_add ''Pay'' ''low'' ''03-11-2026''))))"
    by code_simp
  have n3: "dt_strptime ascii_lib DMY
              (str_strip ascii_lib (a_due_date (mk_add ''Pay'' ''low'' ''03-11-2026''))) \<noteq> None"
    by code_simp
  have p4: "fst (validate_priority
           (str_capitalize ascii_lib
              (str_strip ascii_lib (a_priority (mk_add '' Pay '' ''hIGH'' '' 05-12-2026'')))))
     \<and> fst (validate_due_date_v5 ascii_lib (at_time 2026 11 4 9)
             (str_strip ascii_lib (a_due_date (mk_add '' Pay '' ''hIGH'' '' 05-12-2026''))))"
    by code_simp
  have v: "str_strip ascii_lib (a_title (mk_add '' Pay '' ''hIGH'' '' 05-12-2026'')) = ''Pay''"
    "str_strip ascii_lib (a_category (mk_add '' Pay '' ''hIGH'' '' 05-12-2026'')) = ''Work''"
    "str_capitalize ascii_lib
       (str_strip ascii_lib (a_priority (mk_add '' Pay '' ''hIGH'' '' 05-12-2026''))) = ''High''"
    "str_strip ascii_lib (a_due_date (mk_add '' Pay '' ''hIGH'' '' 05-12-2026'')) = ''05-12-2026''"
    "str_strip ascii_lib (a_comments (mk_add '' Pay '' ''hIGH'' '' 05-12-2026'')) = []"
    by code_simp+
  note a1 = add_task_spec [of ascii_lib "mk_add ''Pay'' ''urgent'' ''05-12-2026''"
      "at_time 2026 11 4 9" two_tasks]
  note a2 = add_task_spec [of ascii_lib "mk_add ''Pay'' ''low'' ''2026-12-05''"
      "at_time 2026 11 4 9" two_tasks]
  note a3 = add_task_spec [of ascii_lib "mk_add ''Pay'' ''low'' ''03-11-2026''"
      "at_time 2026 11 4 9" two_tasks]
  note a4 = add_task_spec [of ascii_lib "mk_add '' Pay '' ''hIGH'' '' 05-12-2026''"
      "at_time 2026 11 4 9" two_tasks]
  have r1: "add_task ascii_lib (at_time 2026 11 4 9) (mk_add ''Pay'' ''urgent'' ''05-12-2026'')
              two_tasks = (two_tasks, [InvalidPriority])"
    using a1 p1 by blast
  have r2: "add_task ascii_lib (at_time 2026 11 4 9) (mk_add ''Pay'' ''low'' ''2026-12-05'')
              two_tasks = (two_tasks, [InvalidDateFormat])"
    using a2 p2 n2 by simp
  have r3: "add_task ascii_lib (at_time 2026 11 4 9) (mk_add ''Pay'' ''low'' ''03-11-2026'')
              two_tasks = (two_tasks, [PastDueDate])"
    using a3 p3 n3 by simp
  have r4: "tasks (fst (add_task ascii_lib (at_time 2026 11 4 9)
                    (mk_add '' Pay '' ''hIGH'' '' 05-12-2026'') two_tasks))
       = tasks two_tasks @
         [\<lparr>title = ''Pay'', category = ''Work'', priority = ''High'', due_date = ''05-12-2026'',
           completed = False, comments = None\<rparr>]
     \<and> snd (add_task ascii_lib (at_time 2026 11 4 9)
             (mk_add '' Pay '' ''hIGH'' '' 05-12-2026'') two_tasks)
       = [TaskAdded ''Pay'']"
    using a4 p4 by (simp only: v) simp
  from p1 r1 r2 r3 r4 show ?thesis by blast
qed

subsection \<open>Titles in reachable collections\<close>

text \<open>
  Each operation keeps titles non-empty, an addition unless it is accepted with a blank
  title.
\<close>

lemma add_task_titles:
  assumes "\<not> adds_blank_title L (Add today i)" and "\<forall>t\<in>set (tasks w). title t \<noteq> []"
  shows "\<forall>t\<in>set (tasks (fst (add_task L today i w))). title t \<noteq> []"
  using assms by (auto simp: add_task_def Let_def save_tasks_def)

lemma remove_task_titles:
  assumes "\<forall>t\<in>set (tasks w). title t \<noteq> []"
  shows "\<forall>t\<in>set (tasks (fst (remove_task L s w))). title t \<noteq> []"
proof (cases "find_task L (str_strip L s) (tasks w)")
  case None
  with assms show ?thesis by (simp add: remove_task_def)
next
  case (Some k)
  have "set (remove1 (tasks w ! k) (tasks w)) \<subseteq> set (tasks w)"
    by (rule set_remove1_subset)
  with assms Some show ?thesis
    by (auto simp: remove_task_def save_tasks_def)
qed

lemma remove_all_tasks_titles:
  assumes "\<forall>t\<in>set (tasks w). title t \<noteq> []"
  shows "\<forall>t\<in>set (tasks (fst (remove_all_tasks L c w))). title t \<noteq> []"
  using assms by (simp add: remove_all_tasks_def save_tasks_def)

lemma remove_completed_tasks_titles:
  assumes "\<forall>t\<in>set (tasks w). title t \<noteq> []"
  shows "\<forall>t\<in>set (tasks (fst (remove_completed_tasks w))). title t \<noteq> []"
  using assms by (simp add: remove_completed_tasks_def Let_def save_tasks_def)

lemma mark_task_complete_titles:
  assumes "\<forall>t\<in>set (tasks w). title t \<noteq> []"
  shows "\<forall>t\<in>set (tasks (fst (mark_task_complete L s w))). title t \<noteq> []"
proof (cases "find_task L (str_strip L s) (tasks w)")
  case None
  with assms show ?thesis by (simp add: mark_task_complete_def)
next
  case (Some k)
  let ?ts = "(tasks w)[k := (tasks w ! k)\<lparr>completed := True\<rparr>]"
  have "title ` set ?ts = title ` set (tasks w)"
    using map_title_mark [of "tasks w" k] by (simp only: list.set_map [symmetric])
  with assms have "\<forall>t\<in>set ?ts. title t \<noteq> []"
    by (metis imageE imageI)
  with Some show ?thesis by (simp add: mark_task_complete_def save_tasks_def)
qed

lemma edit_task_titles:
  assumes "\<forall>t\<in>set (tasks w). title t \<noteq> []"
  shows "\<forall>t\<in>set (tasks (fst (edit_task L today i w))). title t \<noteq> []"
proof (cases "find_task L (str_strip L (e_lookup i)) (tasks w)")
  case None
  with assms show ?thesis by (simp add: edit_task_def)
next
  case (Some k)
  from find_task_Some [OF Some] have "k < length (tasks w)" by simp
  with assms have old: "title (tasks w ! k) \<noteq> []" by simp
  have new: "py_or (str_strip L (e_title i)) (title (tasks w ! k)) \<noteq> []"
    using old by (simp add: py_or_def)
  have upd: "(\<forall>t\<in>set ((tasks w)[k := y]). title t \<noteq> []) \<longleftrightarrow> True"
    if "title y \<noteq> []" for y
    using that assms set_update_subset_insert [of "tasks w" k y] by auto
  show ?thesis
    using Some assms new by (simp add: edit_task_def Let_def save_tasks_def upd)
qed

lemma step_titles:
  assumes "\<not> adds_blank_title L x" and "\<forall>t\<in>set (tasks w). title t \<noteq> []"
  shows "\<forall>t\<in>set (tasks (step L w x)). title t \<noteq> []"
proof (cases x)
  case (Add today i)
  with assms show ?thesis using add_task_titles [of L today i w] by simp
next
  case (Remove s)
  with assms show ?thesis using remove_task_titles [of w L s] by simp
next
  case (RemoveAll c)
  with assms show ?thesis using remove_all_tasks_titles [of w L c] by simp
next
  case (Edit today i)
  with assms show ?thesis using edit_task_titles [of w L today i] by simp
next
  case (MarkComplete s)
  with assms show ?thesis using mark_task_complete_titles [of w L s] by simp
next
  case RemoveCompleted
  with assms show ?thesis using remove_completed_tasks_titles [of w] by simp
qed

lemma foldl_step_titles:
  assumes "\<forall>x\<in>set ops. \<not> adds_blank_title L x" and "\<forall>t\<in>set (tasks w). title t \<noteq> []"
  shows "\<forall>t\<in>set (tasks (foldl (step L) w ops)). title t \<noteq> []"
  using assms
proof (induction ops arbitrary: w)
  case Nil
  then show ?case by simp
next
  case (Cons x xs)
  from Cons.prems have "\<not> adds_blank_title L x"
    and rest: "\<forall>y\<in>set xs. \<not> adds_blank_title L y" by simp_all
  with Cons.prems(2) have "\<forall>t\<in>set (tasks (step L w x)). title t \<noteq> []"
    by (simp add: step_titles)
  from Cons.IH [OF rest this] show ?case by simp
qed

text \<open>
  The condition cannot be weakened: an addition that is accepted with a blank title
  leaves a task with an empty title in the collection, whatever the collection was.
\<close>

lemma adds_blank_title_stores:
  assumes "adds_blank_title L x"
  shows "\<exists>t\<in>set (tasks (step L w x)). title t = []"
proof (cases x)
  case (Add today i)
  with assms show ?thesis
    by (simp add: add_task_def Let_def save_tasks_def)
qed (use assms in simp_all)

text \<open>
  C6 as stated, that every title in a reachable collection is non-empty, fails:
  \<^verbatim>\<open>add_task\<close> does not look at the title, and from the empty collection an addition
  with a blank title and valid priority and date stores a task whose title is empty.
\<close>

theorem add_blank_title_counterexample:
  "map title
     (tasks (run ascii_lib [Add (at_time 2026 11 4 9) (mk_add '' '' ''high'' ''05-12-2026'')]))
   = ['''']"
  by code_simp

text \<open>
  C6, amended. In every collection reached from the empty one by additions, edits,
  removals, completions, removal of the completed tasks and removal of all tasks, every
  title is non-empty, provided no addition with a blank title was accepted, that is,
  passed the validation of its priority and of its due date. (An addition that is
  refused stores nothing, and an edit cannot empty a title: a blank new title keeps the
  old one.)
\<close>

theorem titles_nonempty_invariant:
  assumes "\<forall>x\<in>set ops. \<not> adds_blank_title L x"
  shows "\<forall>t\<in>set (tasks (run L ops)). title t \<noteq> []"
  unfolding run_def using assms by (rule foldl_step_titles) (simp add: empty_world_def)

text \<open>
  A run of eight operations, one of them a refused addition with a blank title, ending
  with the titles Plan and Call.
\<close>

theorem titles_nonempty_invariant_witness:
  "list_all (\<lambda>x. \<not> adds_blank_title ascii_lib x) example_ops
   \<and> list_all (\<lambda>t. title t \<noteq> []) (tasks (run ascii_lib example_ops))
   \<and> map title (tasks (run ascii_lib example_ops)) = [''Plan'', ''Call'']"
proof -
  have h: "\<forall>x\<in>set example_ops. \<not> adds_blank_title ascii_lib x" by code_simp
  have e: "map title (tasks (run ascii_lib example_ops)) = [''Plan'', ''Call'']" by code_simp
  from titles_nonempty_invariant [OF h] h e show ?thesis
    by (simp only: list_all_iff)
qed

subsection \<open>Loading the collection\<close>

text \<open>
  C7 as stated, that \<^verbatim>\<open>load_tasks\<close> never raises, fails: the source catches
  \<^verbatim>\<open>FileNotFoundError\<close> and \<^verbatim>\<open>JSONDecodeError\<close> only, and for a file that exists but
  cannot be opened for reading the \<^verbatim>\<open>PermissionError\<close> reaches the caller.
\<close>

theorem load_tasks_raises_counterexample:
  "load_tasks Unreadable = Inl PermissionError"
  by (simp add: load_tasks_def read_json_def)

text \<open>
  C7, amended. \<^verbatim>\<open>load_tasks\<close> returns the persisted value when the file can be read and
  parses, and in particular what \<^verbatim>\<open>save_tasks\<close> wrote; it returns the empty sequence when
  the file is absent or its content is not valid JSON; any other error of reading the
  file is raised to the caller.
\<close>

theorem load_tasks_spec:
  "(read_json d = Inr v \<longrightarrow> load_tasks d = Inr v)
   \<and> (read_json d = Inl FileNotFoundError \<or> read_json d = Inl JSONDecodeError \<longrightarrow>
        load_tasks d = Inr (JArray []))
   \<and> (read_json d = Inl e \<and> e \<noteq> FileNotFoundError \<and> e \<noteq> JSONDecodeError \<longrightarrow>
        load_tasks d = Inl e)
   \<and> load_tasks (store (save_tasks w)) = Inr (dump (tasks w))"
  by (auto simp: load_tasks_def read_json_def save_tasks_def)

text \<open>The cases of C7 on a saved collection, an absent file, a malformed file and a binary file.\<close>

theorem load_tasks_spec_witness:
  "load_tasks (Holds (dump (tasks two_tasks))) = Inr (dump (tasks two_tasks))
   \<and> load_tasks Absent = Inr (JArray [])
   \<and> load_tasks Malformed = Inr (JArray [])
   \<and> load_tasks NotText = Inl UnicodeDecodeError
   \<and> load_tasks (store (save_tasks two_tasks)) = Inr (dump (tasks two_tasks))"
proof -
  have r: "read_json (Holds (dump (tasks two_tasks))) = Inr (dump (tasks two_tasks))"
    "read_json Absent = Inl FileNotFoundError"
    "read_json Malformed = Inl JSONDecodeError"
    "read_json NotText = Inl UnicodeDecodeError"
    by (simp_all add: read_json_def)
  from load_tasks_spec [of "Holds (dump (tasks two_tasks))" "dump (tasks two_tasks)" UnicodeDecodeError two_tasks]
    load_tasks_spec [of Absent JNull UnicodeDecodeError two_tasks]
    load_tasks_spec [of Malformed JNull UnicodeDecodeError two_tasks]
    load_tasks_spec [of NotText JNull UnicodeDecodeError two_tasks]
    r show ?thesis by simp
qed

subsection \<open>Removing the completed tasks\<close>

lemma filter_shorter:
  "length (filter (\<lambda>t. \<not> P t) xs) < length xs \<longleftrightarrow> (\<exists>x\<in>set xs. P x)"
  by (induction xs) (auto simp: less_Suc_eq_le)

text \<open>The number of tasks dropped is the number of completed tasks.\<close>

lemma remove_completed_tasks_count:
  "length (tasks w) - length (tasks (fst (remove_completed_tasks w)))
     = length (filter completed (tasks w))"
proof -
  have "tasks (fst (remove_completed_tasks w)) = filter (\<lambda>t. \<not> completed t) (tasks w)"
    by (simp add: remove_completed_tasks_def Let_def save_tasks_def)
  then show ?thesis
    using sum_length_filter_compl [of completed "tasks w"] by simp
qed

text \<open>
  C8 as stated, that \<^verbatim>\<open>remove_completed_tasks\<close> returns the number of tasks removed, fails:
  the source returns nothing and prints one fixed line whenever anything was removed.
  On five tasks with two completed and on three tasks with one completed the report
  is the same, while two tasks are removed from the first collection and one from the
  second.
\<close>

theorem remove_completed_report_counterexample:
  "snd (remove_completed_tasks five_tasks) = [CompletedRemoved]
   \<and> snd (remove_completed_tasks two_tasks) = [CompletedRemoved]
   \<and> length (tasks five_tasks) - length (tasks (fst (remove_completed_tasks five_tasks))) = 2
   \<and> length (tasks two_tasks) - length (tasks (fst (remove_completed_tasks two_tasks))) = 1"
  by code_simp

text \<open>
  C8, amended. For every collection, \<^verbatim>\<open>remove_completed_tasks\<close> keeps exactly the tasks
  that are not completed, in their order; it returns no count, and prints only whether
  at least one task was removed; the file is written exactly when at least one task was
  removed, and otherwise is left as it was; run again at once it removes nothing, writes
  nothing and prints that there was nothing to remove.
\<close>

theorem remove_completed_tasks_spec:
  "tasks (fst (remove_completed_tasks w)) = filter (\<lambda>t. \<not> completed t) (tasks w)
   \<and> store (fst (remove_completed_tasks w))
       = (if \<exists>t\<in>set (tasks w). completed t
          then Holds (dump (filter (\<lambda>t. \<not> completed t) (tasks w))) else store w)
   \<and> snd (remove_completed_tasks w)
       = (if \<exists>t\<in>set (tasks w). completed t then [CompletedRemoved]
          else [NoCompletedTasks])
   \<and> remove_completed_tasks (fst (remove_completed_tasks w))
       = (fst (remove_completed_tasks w), [NoCompletedTasks])"
proof -
  let ?keep = "filter (\<lambda>t. \<not> completed t) (tasks w)"
  have some: "length ?keep < length (tasks w) \<longleftrightarrow> (\<exists>t\<in>set (tasks w). completed t)"
    by (rule filter_shorter)
  have t: "tasks (fst (remove_completed_tasks w)) = ?keep"
    by (simp add: remove_completed_tasks_def Let_def save_tasks_def)
  have s: "store (fst (remove_completed_tasks w))
       = (if \<exists>t\<in>set (tasks w). completed t then Holds (dump ?keep) else store w)"
    using some by (simp add: remove_completed_tasks_def Let_def save_tasks_def)
  have m: "snd (remove_completed_tasks w)
       = (if \<exists>t\<in>set (tasks w). completed t then [CompletedRemoved]
          else [NoCompletedTasks])"
    using some by (simp add: remove_completed_tasks_def Let_def)
  have again: "remove_completed_tasks w' = (w', [NoCompletedTasks])"
    if "tasks w' = ?keep" for w' :: world
    using that by (simp add: remove_completed_tasks_def Let_def)
  from t s m again [OF t] show ?thesis by simp
qed

text \<open>C8 on five tasks of which two are completed: three remain, and the file is written.\<close>

theorem remove_completed_tasks_spec_witness:
  "map title (tasks (fst (remove_completed_tasks five_tasks))) = [''a'', ''c'', ''e'']
   \<and> snd (remove_completed_tasks five_tasks) = [CompletedRemoved]
   \<and> store (fst (remove_completed_tasks five_tasks))
       = Holds (dump (tasks (fst (remove_completed_tasks five_tasks))))
   \<and> remove_completed_tasks (fst (remove_completed_tasks five_tasks))
       = (fst (remove_completed_tasks five_tasks), [NoCompletedTasks])"
proof -
  have f: "\<exists>t\<in>set (tasks five_tasks). completed t"
    by (simp add: five_tasks_def mk_task_def)
  have k: "map title (filter (\<lambda>t. \<not> completed t) (tasks five_tasks)) = [''a'', ''c'', ''e'']"
    by (simp add: five_tasks_def mk_task_def)
  have t: "tasks (fst (remove_completed_tasks five_tasks))
             = filter (\<lambda>t. \<not> completed t) (tasks five_tasks)"
    using remove_completed_tasks_spec [of five_tasks] by blast
  from remove_completed_tasks_spec [of five_tasks] f k t show ?thesis by simp
qed

subsection \<open>Marking a task complete\<close>

lemma mark_task_complete_found:
  assumes "find_task L (str_strip L t) (tasks w) = Some k"
  shows "mark_task_complete L t w =
           (\<lparr>tasks = (tasks w)[k := (tasks w ! k)\<lparr>completed := True\<rparr>],
             store = Holds (dump ((tasks w)[k := (tasks w ! k)\<lparr>completed := True\<rparr>]))\<rparr>,
            [TaskMarkedComplete (str_strip L t)])"
  using assms by (simp add: mark_task_complete_def save_tasks_def)

text \<open>
  C9. If some task's title matches the given title without regard to case (the two are
  equal after \<^verbatim>\<open>lower()\<close>, the given title first stripped), then \<^verbatim>\<open>mark_task_complete\<close>
  succeeds, and it is idempotent: a second call with the same title succeeds with the
  same report and gives the same collection and file as the first; the matched task is
  the same in both calls and its flag stays set.
\<close>

theorem mark_task_complete_idempotent:
  assumes "\<exists>x\<in>set (tasks w). str_lower L (title x) = str_lower L (str_strip L t)"
  shows "snd (mark_task_complete L t w) = [TaskMarkedComplete (str_strip L t)]
     \<and> mark_task_complete L t (fst (mark_task_complete L t w)) = mark_task_complete L t w
     \<and> (\<exists>k. find_task L (str_strip L t) (tasks w) = Some k
            \<and> find_task L (str_strip L t) (tasks (fst (mark_task_complete L t w))) = Some k
            \<and> completed (tasks (fst (mark_task_complete L t w)) ! k))"
proof -
  from assms obtain k where k: "find_task L (str_strip L t) (tasks w) = Some k"
    by (cases "find_task L (str_strip L t) (tasks w)") (auto simp: find_task_None)
  let ?ts = "(tasks w)[k := (tasks w ! k)\<lparr>completed := True\<rparr>]"
  let ?w1 = "\<lparr>tasks = ?ts, store = Holds (dump ?ts)\<rparr>"
  have first: "mark_task_complete L t w = (?w1, [TaskMarkedComplete (str_strip L t)])"
    using k by (rule mark_task_complete_found)
  have k1: "find_task L (str_strip L t) (tasks ?w1) = Some k"
    using k by (simp add: find_task_mark)
  have klen: "k < length (tasks w)"
    using find_task_Some [OF k] by simp
  have again: "?ts[k := (?ts ! k)\<lparr>completed := True\<rparr>] = ?ts"
    using klen by simp
  have second: "mark_task_complete L t ?w1 = (?w1, [TaskMarkedComplete (str_strip L t)])"
    using mark_task_complete_found [OF k1] again by simp
  have marked: "completed (tasks ?w1 ! k)"
    using klen by simp
  from first second k k1 marked show ?thesis by simp
qed

text \<open>C9 on three tasks, two of which match the title; the first of them was already completed.\<close>

theorem mark_task_complete_idempotent_witness:
  "(\<exists>x\<in>set (tasks two_tasks).
      str_lower ascii_lib (title x) = str_lower ascii_lib (str_strip ascii_lib '' SHOP ''))
   \<and> snd (mark_task_complete ascii_lib '' SHOP '' two_tasks) = [TaskMarkedComplete ''SHOP'']
   \<and> mark_task_complete ascii_lib '' SHOP '' (fst (mark_task_complete ascii_lib '' SHOP '' two_tasks))
       = mark_task_complete ascii_lib '' SHOP '' two_tasks
   \<and> map completed (tasks (fst (mark_task_complete ascii_lib '' SHOP '' two_tasks)))
       = [False, True, False]
   \<and> map completed (tasks (fst (mark_task_complete ascii_lib ''report'' two_tasks)))
       = [True, True, False]"
proof -
  have h: "\<exists>x\<in>set (tasks two_tasks).
      str_lower ascii_lib (title x) = str_lower ascii_lib (str_strip ascii_lib '' SHOP '')"
    by code_simp
  have c1: "map completed (tasks (fst (mark_task_complete ascii_lib '' SHOP '' two_tasks)))
       = [False, True, False]"
    by code_simp
  have c2: "map completed (tasks (fst (mark_task_complete ascii_lib ''report'' two_tasks)))
       = [True, True, False]"
    by code_simp
  have s: "str_strip ascii_lib '' SHOP '' = ''SHOP''" by code_simp
  from mark_task_complete_idempotent [OF h] h c1 c2 s show ?thesis by simp
qed

text \<open>
  C10. If some task's title matches the given title without regard to case (the two are
  equal after \<^verbatim>\<open>lower()\<close>, the given title first stripped), then \<^verbatim>\<open>mark_task_complete\<close>
  changes only the \<^verbatim>\<open>completed\<close> field of the first matching task: the length and order
  of the collection, every other task, and the title, category, priority, due date and
  comments of that task are unchanged.
\<close>

theorem mark_task_complete_frame:
  assumes "\<exists>x\<in>set (tasks w). str_lower L (title x) = str_lower L (str_strip L t)"
  shows "\<exists>k<length (tasks w).
           str_lower L (title (tasks w ! k)) = str_lower L (str_strip L t)
         \<and> (\<forall>j<k. str_lower L (title (tasks w ! j)) \<noteq> str_lower L (str_strip L t))
         \<and> length (tasks (fst (mark_task_complete L t w))) = length (tasks w)
         \<and> (\<forall>j<length (tasks w). j \<noteq> k \<longrightarrow>
               tasks (fst (mark_task_complete L t w)) ! j = tasks w ! j)
         \<and> tasks (fst (mark_task_complete L t w)) ! k = (tasks w ! k)\<lparr>completed := True\<rparr>
         \<and> title (tasks (fst (mark_task_complete L t w)) ! k) = title (tasks w ! k)
         \<and> category (tasks (fst (mark_task_complete L t w)) ! k) = category (tasks w ! k)
         \<and> priority (tasks (fst (mark_task_complete L t w)) ! k) = priority (tasks w ! k)
         \<and> due_date (tasks (fst (mark_task_complete L t w)) ! k) = due_date (tasks w ! k)
         \<and> comments (tasks (fst (mark_task_complete L t w)) ! k) = comments (tasks w ! k)
         \<and> completed (tasks (fst (mark_task_complete L t w)) ! k)"
proof -
  from assms obtain k where k: "find_task L (str_strip L t) (tasks w) = Some k"
    by (cases "find_task L (str_strip L t) (tasks w)") (auto simp: find_task_None)
  let ?ts = "(tasks w)[k := (tasks w ! k)\<lparr>completed := True\<rparr>]"
  have res: "tasks (fst (mark_task_complete L t w)) = ?ts"
    using mark_task_complete_found [OF k] by simp
  from find_task_Some [OF k] have klen: "k < length (tasks w)"
    and match: "str_lower L (title (tasks w ! k)) = str_lower L (str_strip L t)"
    and first: "\<forall>j<k. str_lower L (title (tasks w ! j)) \<noteq> str_lower L (str_strip L t)"
    by simp_all
  have others: "\<forall>j<length (tasks w). j \<noteq> k \<longrightarrow> ?ts ! j = tasks w ! j"
    by simp
  have at_k: "?ts ! k = (tasks w ! k)\<lparr>completed := True\<rparr>"
    using klen by simp
  show ?thesis
  proof (intro exI conjI)
    show "k < length (tasks w)" by (rule klen)
    show "str_lower L (title (tasks w ! k)) = str_lower L (str_strip L t)" by (rule match)
    show "\<forall>j<k. str_lower L (title (tasks w ! j)) \<noteq> str_lower L (str_strip L t)"
      by (rule first)
    show "length (tasks (fst (mark_task_complete L t w))) = length (tasks w)"
      by (simp add: res)
    show "\<forall>j<length (tasks w). j \<noteq> k \<longrightarrow>
            tasks (fst (mark_task_complete L t w)) ! j = tasks w ! j"
      using others by (simp only: res)
    show "tasks (fst (mark_task_complete L t w)) ! k = (tasks w ! k)\<lparr>completed := True\<rparr>"
      using at_k by (simp only: res)
  qed (simp_all only: res at_k, simp_all)
qed

text \<open>C10 on three tasks: only the flag of the first task changes.\<close>

theorem mark_task_complete_frame_witness:
  "(\<exists>x\<in>set (tasks two_tasks).
      str_lower ascii_lib (title x) = str_lower ascii_lib (str_strip ascii_lib ''report''))
   \<and> tasks (fst (mark_task_complete ascii_lib ''report'' two_tasks))
       = [mk_task ''Report'' ''High'' ''05-12-2026'' True,
          mk_task ''Shop'' ''Low'' ''06-12-2026'' True,
          mk_task ''shop'' ''Medium'' ''07-12-2026'' False]
   \<and> (\<exists>k<length (tasks two_tasks).
         str_lower ascii_lib (title (tasks two_tasks ! k))
           = str_lower ascii_lib (str_strip ascii_lib ''report'')
       \<and> length (tasks (fst (mark_task_complete ascii_lib ''report'' two_tasks)))
           = length (tasks two_tasks)
       \<and> (\<forall>j<length (tasks two_tasks). j \<noteq> k \<longrightarrow>
             tasks (fst (mark_task_complete ascii_lib ''report'' two_tasks)) ! j
               = tasks two_tasks ! j)
       \<and> completed (tasks (fst (mark_task_complete ascii_lib ''report'' two_tasks)) ! k))"
proof -
  have h: "\<exists>x\<in>set (tasks two_tasks).
      str_lower ascii_lib (title x) = str_lower ascii_lib (str_strip ascii_lib ''report'')"
    by code_simp
  have e: "tasks (fst (mark_task_complete ascii_lib ''report'' two_tasks))
       = [mk_task ''Report'' ''High'' ''05-12-2026'' True,
          mk_task ''Shop'' ''Low'' ''06-12-2026'' True,
          mk_task ''shop'' ''Medium'' ''07-12-2026'' False]"
    by code_simp
  from mark_task_complete_frame [OF h] obtain k where
    "k < length (tasks two_tasks)"
    "str_lower ascii_lib (title (tasks two_tasks ! k))
       = str_lower ascii_lib (str_strip ascii_lib ''report'')"
    "length (tasks (fst (mark_task_complete ascii_lib ''report'' two_tasks)))
       = length (tasks two_tasks)"
    "\<forall>j<length (tasks two_tasks). j \<noteq> k \<longrightarrow>
             tasks (fst (mark_task_complete ascii_lib ''report'' two_tasks)) ! j
               = tasks two_tasks ! j"
    "completed (tasks (fst (mark_task_complete ascii_lib ''report'' two_tasks)) ! k)"
    by blast
  with h e show ?thesis by blast
qed

end
